theory Spec2Isabelle
  imports Main "HOL-Library.Word" "HOL-Library.AList" "HOL-Library.Sublist"
begin

section \<open>Bytes, Python slices and exceptions\<close>

text \<open>
  The crawler \<^verbatim>\<open>get_original_ct_logs.py\<close> works on Python \<^verbatim>\<open>bytes\<close> objects, on
  dictionaries returned by the certificate parser and on a MongoDB collection. Bytes are
  lists of 8-bit words, Python integers are \<open>int\<close>. An exception that the script does not
  catch is a value \<open>Inl e\<close> of a sum type; \<open>Inr v\<close> is a normal return of \<open>v\<close>.
\<close>

type_synonym byte = "8 word"

type_synonym bytes = "byte list"

datatype py_error = IndexError | KeyError | Base64Error

text \<open>
  \<^verbatim>\<open>xs[i:j]\<close> for indices \<open>0 \<le> i\<close>, \<open>0 \<le> j\<close>: a slice never raises, it is clipped to the
  length of \<open>xs\<close>. \<^verbatim>\<open>xs[i:]\<close> is \<open>drop i xs\<close>.
\<close>

definition py_slice :: "nat \<Rightarrow> nat \<Rightarrow> 'a list \<Rightarrow> 'a list" where
  "py_slice i j xs = drop i (take j xs)"

text \<open>\<^verbatim>\<open>int.from_bytes(bs, "big")\<close>: the empty byte string is 0.\<close>

definition int_from_bytes :: "bytes \<Rightarrow> int" where
  "int_from_bytes bs = foldl (\<lambda>acc b. acc * 256 + int (unat b)) 0 bs"

section \<open>Leaf decoder\<close>

record leaf_header =
  version :: int
  merkle_leaf_type :: int
  timestamp :: int
  LogEntryType :: int
  Entry :: bytes

text \<open>
  \<^verbatim>\<open>read_leaf_header(leaf)\<close>. The two index reads \<^verbatim>\<open>leaf[0]\<close> and \<^verbatim>\<open>leaf[1]\<close> raise
  \<^verbatim>\<open>IndexError\<close> out of range; the three slices do not.
\<close>

definition read_leaf_header :: "bytes \<Rightarrow> py_error + leaf_header" where
  "read_leaf_header leaf =
     (if \<not> 0 < length leaf then Inl IndexError
      else if \<not> 1 < length leaf then Inl IndexError
      else Inr \<lparr> version = int (unat (leaf ! 0)),
                 merkle_leaf_type = int (unat (leaf ! 1)),
                 timestamp = int_from_bytes (py_slice 2 10 leaf),
                 LogEntryType = int_from_bytes (py_slice 10 12 leaf),
                 Entry = drop 12 leaf \<rparr>)"

text \<open>
  \<^verbatim>\<open>get_cert_from_leaf(logger, leaf)\<close>. The base64 decoder of the Python library is the
  parameter \<open>b64decode\<close>; it raises on malformed input. The result is the pair
  \<^verbatim>\<open>(cert, cert_type)\<close>, where \<open>None\<close> is Python's \<^verbatim>\<open>None\<close>. The two warnings written to the
  logger on a length mismatch have no effect on the result and are left out.
\<close>

definition get_cert_from_leaf ::
  "(string \<Rightarrow> py_error + bytes) \<Rightarrow> string \<Rightarrow> py_error + (bytes option \<times> int)" where
  "get_cert_from_leaf b64decode leaf =
     (case b64decode leaf of
        Inl e \<Rightarrow> Inl e
      | Inr decoded \<Rightarrow>
          (case read_leaf_header decoded of
             Inl e \<Rightarrow> Inl e
           | Inr header \<Rightarrow>
               (let cert_type = LogEntryType header in
                if cert_type = 1 then Inr (None, cert_type)
                else
                  (let cert_length = int_from_bytes (py_slice 0 3 (Entry header));
                       cert = drop 3 (Entry header)
                   in if cert_length \<noteq> int (length cert) - 2 then Inr (None, cert_type)
                      else Inr (Some cert, cert_type)))))"

text \<open>\<^verbatim>\<open>get_cert_from_extra_data(extra_data)\<close>: the slice \<^verbatim>\<open>data[3 : cert_length + 4]\<close>.\<close>

definition get_cert_from_extra_data ::
  "(string \<Rightarrow> py_error + bytes) \<Rightarrow> string \<Rightarrow> py_error + bytes" where
  "get_cert_from_extra_data b64decode extra_data =
     (case b64decode extra_data of
        Inl e \<Rightarrow> Inl e
      | Inr data \<Rightarrow>
          (let cert_length = int_from_bytes (py_slice 0 3 data)
           in Inr (py_slice 3 (nat (cert_length + 4)) data)))"

section \<open>Certificate records and the relevancy filter\<close>

text \<open>
  The certificate parser returns a dictionary, and the same dictionary is what the store
  holds. The keys the script reads or writes are the fields of the record; a key whose
  presence the script tests (\<^verbatim>\<open>"subject_common_names" in cert\<close>) is an optional field. The
  keys \<^verbatim>\<open>{source}_id\<close>, one per log source, are the association list \<open>source_ids\<close>, keyed
  by the source. Times (\<^verbatim>\<open>datetime\<close> values) are integers.
\<close>

record certificate =
  fingerprint_sha256 :: string
  subject_organization_name :: "string list option"
  subject_common_names :: "string list option"
  subject_dns_names :: "string list option"
  not_after :: int
  isExpired :: bool
  ct_log_type :: string
  zones :: "string list"
  sources :: "string list"
  marinus_updated :: int
  source_ids :: "(string \<times> int) list"

text \<open>\<^verbatim>\<open>s.endswith(suf)\<close>\<close>

definition endswith :: "string \<Rightarrow> string \<Rightarrow> bool" where
  "endswith s suf = suffix suf s"

text \<open>
  \<^verbatim>\<open>check_org_relevancy(cert, ssl_orgs)\<close> returns \<^verbatim>\<open>True\<close> or falls off its end
  (\<^verbatim>\<open>None\<close>, which the caller reads as false).
\<close>

definition check_org_relevancy :: "certificate \<Rightarrow> string list \<Rightarrow> bool" where
  "check_org_relevancy cert ssl_orgs =
     (case subject_organization_name cert of
        None \<Rightarrow> False
      | Some orgs \<Rightarrow> list_ex (\<lambda>org. org \<in> set ssl_orgs) orgs)"

text \<open>
  \<^verbatim>\<open>check_zone_relevancy(cert, zones)\<close>. \<open>zone_loop\<close> is the inner loop
  \<^verbatim>\<open>for zone in zones\<close> for one name, \<open>name_loop\<close> the outer loop over a list of names;
  both thread the list \<^verbatim>\<open>cert_zones\<close>. The parameter \<^verbatim>\<open>zones\<close> is \<open>zone_list\<close> here, the
  name \<open>zones\<close> being the key of the record.
\<close>

fun zone_loop :: "string \<Rightarrow> string list \<Rightarrow> string list \<Rightarrow> string list" where
  "zone_loop cn [] cert_zones = cert_zones"
| "zone_loop cn (zone # rest) cert_zones =
     zone_loop cn rest
       (if cn = zone \<or> endswith cn (''.'' @ zone)
        then (if zone \<notin> set cert_zones then cert_zones @ [zone] else cert_zones)
        else cert_zones)"

fun name_loop :: "string list \<Rightarrow> string list \<Rightarrow> string list \<Rightarrow> string list" where
  "name_loop [] zone_list cert_zones = cert_zones"
| "name_loop (cn # rest) zone_list cert_zones =
     name_loop rest zone_list (zone_loop cn zone_list cert_zones)"

definition check_zone_relevancy :: "certificate \<Rightarrow> string list \<Rightarrow> string list" where
  "check_zone_relevancy cert zone_list =
     (let cert_zones = [];
          cert_zones = (case subject_common_names cert of
                          None \<Rightarrow> cert_zones
                        | Some cns \<Rightarrow> name_loop cns zone_list cert_zones);
          cert_zones = (case subject_dns_names cert of
                          None \<Rightarrow> cert_zones
                        | Some dns \<Rightarrow> name_loop dns zone_list cert_zones)
      in cert_zones)"

section \<open>The certificate store\<close>

text \<open>
  The MongoDB collection is the list of its documents, in insertion order.
  \<^verbatim>\<open>insert_one\<close> appends a document; \<^verbatim>\<open>update_many(filter, update)\<close> applies the update to
  every document that matches the filter and leaves the others as they are, so it never
  changes the number of documents; \<^verbatim>\<open>$addToSet\<close> appends a value to an array unless the
  array has it.
\<close>

type_synonym collection = "certificate list"

definition insert_one :: "collection \<Rightarrow> certificate \<Rightarrow> collection" where
  "insert_one coll doc = coll @ [doc]"

definition update_many ::
  "(certificate \<Rightarrow> bool) \<Rightarrow> (certificate \<Rightarrow> certificate) \<Rightarrow> collection \<Rightarrow> collection" where
  "update_many matches upd coll = map (\<lambda>doc. if matches doc then upd doc else doc) coll"

definition addToSet :: "'a \<Rightarrow> 'a list \<Rightarrow> 'a list" where
  "addToSet x xs = (if x \<in> set xs then xs else xs @ [x])"

text \<open>
  \<^verbatim>\<open>fetch_starting_index(ct_collection, source)\<close>. The query selects the documents that
  have the key \<^verbatim>\<open>{source}_id\<close> and projects them to that key, sorts in descending order
  and keeps one. \<^verbatim>\<open>count()\<close> counts the selected documents whatever the limit. The
  function returns from inside \<^verbatim>\<open>for entry in result\<close>; a loop that does not run would
  return Python's \<^verbatim>\<open>None\<close>, here \<open>None\<close>.
\<close>

definition fetch_starting_index :: "collection \<Rightarrow> string \<Rightarrow> int option" where
  "fetch_starting_index ct_collection source =
     (let found = List.map_filter (\<lambda>doc. map_of (source_ids doc) source) ct_collection;
          result = take 1 (rev (sort found))
      in if length found = 0 then Some 0
         else (case result of [] \<Rightarrow> None | entry # _ \<Rightarrow> Some entry))"

text \<open>
  Lines 440 to 443 of \<^verbatim>\<open>main\<close>: the command line argument \<^verbatim>\<open>--starting_index\<close> has the
  default \<open>-1\<close>, and only that value sends the script to the store.
\<close>

definition main_starting_index :: "int \<Rightarrow> collection \<Rightarrow> string \<Rightarrow> int option" where
  "main_starting_index args_starting_index ct_collection source =
     (if args_starting_index = -1 then fetch_starting_index ct_collection source
      else Some args_starting_index)"

text \<open>
  \<^verbatim>\<open>insert_certificate(cert, source, ct_collection, cert_zones)\<close>, with the clock reading
  \<open>now\<close> of \<^verbatim>\<open>datetime.now()\<close>. The update document is built before \<^verbatim>\<open>update_many\<close> is
  called, so a certificate without the key \<^verbatim>\<open>{source}_id\<close> raises \<^verbatim>\<open>KeyError\<close> on the update
  path.
\<close>

definition insert_certificate ::
  "int \<Rightarrow> certificate \<Rightarrow> string \<Rightarrow> collection \<Rightarrow> string list \<Rightarrow> py_error + collection" where
  "insert_certificate now cert source ct_collection cert_zones =
     (if length (filter (\<lambda>doc. fingerprint_sha256 doc = fingerprint_sha256 cert) ct_collection) = 0
      then Inr (insert_one ct_collection cert)
      else
        (case map_of (source_ids cert) source of
           None \<Rightarrow> Inl KeyError
         | Some cert_source_id \<Rightarrow>
             Inr (update_many
                    (\<lambda>doc. fingerprint_sha256 doc = fingerprint_sha256 cert)
                    (\<lambda>doc. doc\<lparr> source_ids := AList.update source cert_source_id (source_ids doc),
                                ct_log_type := ct_log_type cert,
                                zones := cert_zones,
                                marinus_updated := now,
                                sources := addToSet source (sources doc) \<rparr>)
                    ct_collection)))"

text \<open>
  Lines 511 to 515 of \<^verbatim>\<open>main\<close>, the expiration sweep, with the clock reading \<open>utcnow\<close> of
  \<^verbatim>\<open>datetime.utcnow()\<close>.
\<close>

definition main_set_expired :: "int \<Rightarrow> collection \<Rightarrow> collection" where
  "main_set_expired utcnow ct_collection =
     update_many (\<lambda>doc. not_after doc < utcnow \<and> isExpired doc = False)
                 (\<lambda>doc. doc\<lparr> isExpired := True \<rparr>)
                 ct_collection"

section \<open>Batch fetch client\<close>

text \<open>
  The exception classes of the \<^verbatim>\<open>requests\<close> library that the handlers of
  \<^verbatim>\<open>make_https_request\<close> name, with the subclasses that decide which handler runs:
  \<^verbatim>\<open>ConnectionError\<close>, \<^verbatim>\<open>HTTPError\<close>, \<^verbatim>\<open>Timeout\<close> and \<^verbatim>\<open>RetryError\<close> derive from
  \<^verbatim>\<open>RequestException\<close>; \<^verbatim>\<open>ConnectTimeout\<close> derives from \<^verbatim>\<open>ConnectionError\<close> and from
  \<^verbatim>\<open>Timeout\<close>; \<^verbatim>\<open>ReadTimeout\<close> derives from \<^verbatim>\<open>Timeout\<close>. \<open>OtherException\<close> is an exception
  outside the library. Each \<open>is_C e\<close> is \<^verbatim>\<open>isinstance(e, C)\<close>.
\<close>

datatype request_exception =
  ConnectionError | ConnectTimeout | HTTPError | ReadTimeout | Timeout | RetryError
  | RequestException | OtherException

fun is_ConnectionError :: "request_exception \<Rightarrow> bool" where
  "is_ConnectionError ConnectionError = True"
| "is_ConnectionError ConnectTimeout = True"
| "is_ConnectionError _ = False"

fun is_HTTPError :: "request_exception \<Rightarrow> bool" where
  "is_HTTPError HTTPError = True"
| "is_HTTPError _ = False"

fun is_RequestException :: "request_exception \<Rightarrow> bool" where
  "is_RequestException OtherException = False"
| "is_RequestException _ = True"

fun is_Timeout :: "request_exception \<Rightarrow> bool" where
  "is_Timeout Timeout = True"
| "is_Timeout ConnectTimeout = True"
| "is_Timeout ReadTimeout = True"
| "is_Timeout _ = False"

text \<open>
  The remote log. A request is one of the two URLs the script builds on the base URL of
  the log. What \<^verbatim>\<open>requests_retry_session().get(url, timeout=120)\<close> does is the outcome of
  the transport: an exception, or a response with its status code and body. The network
  is a parameter \<open>net\<close>: given the requests made so far and the new one, the outcome.
  The process-wide effects are recorded in \<open>world\<close>: the requests issued, the
  \<^verbatim>\<open>time.sleep\<close> calls, and the calls of \<^verbatim>\<open>jobs_manager.record_job_error()\<close>.
\<close>

datatype url = Get_sth | Get_entries int int

datatype 'a http_outcome = Get_raises request_exception | Get_response int 'a

record world =
  requested :: "url list"
  slept :: "nat list"
  job_errors :: nat

text \<open>\<^verbatim>\<open>exit(1)\<close> ends the process with that status; \<open>Return v\<close> is a normal return.\<close>

datatype 'a call = Exit int | Return 'a

text \<open>
  Modelled from the spec: \<^verbatim>\<open>JobsManager\<close> is not among the sources. The job tracker of
  the specification records an error marker for the job (\<^verbatim>\<open>recordError(jobName)\<close>); a call
  of \<^verbatim>\<open>jobs_manager.record_job_error()\<close> is counted in \<open>job_errors\<close>.
\<close>

definition record_job_error :: "world \<Rightarrow> world" where
  "record_job_error w = w\<lparr> job_errors := job_errors w + 1 \<rparr>"

text \<open>\<^verbatim>\<open>req.raise_for_status()\<close> raises \<^verbatim>\<open>HTTPError\<close> on a status from 400 to 599.\<close>

definition raise_for_status :: "'a http_outcome \<Rightarrow> request_exception + (int \<times> 'a)" where
  "raise_for_status out =
     (case out of
        Get_raises e \<Rightarrow> Inl e
      | Get_response status_code body \<Rightarrow>
          if 400 \<le> status_code \<and> status_code < 600 then Inl HTTPError
          else Inr (status_code, body))"

text \<open>
  \<^verbatim>\<open>make_https_request(logger, url, jobs_manager, download, timeout_attempt)\<close>. The
  \<^verbatim>\<open>except\<close> clauses are tried in the order of the source and the first whose class the
  exception is an instance of runs. \<^verbatim>\<open>download\<close> is always false in this script, so the
  body returned is \<^verbatim>\<open>req.text\<close>.
\<close>

function make_https_request ::
  "(url list \<Rightarrow> url \<Rightarrow> 'a http_outcome) \<Rightarrow> url \<Rightarrow> nat \<Rightarrow> world \<Rightarrow> 'a option call \<times> world" where
  "make_https_request net u timeout_attempt w =
     (let w1 = w\<lparr> requested := requested w @ [u] \<rparr> in
      case raise_for_status (net (requested w) u) of
        Inl e \<Rightarrow>
          if is_ConnectionError e then (Exit 1, record_job_error w1)
          else if is_HTTPError e then (Return None, w1)
          else if is_RequestException e then (Exit 1, record_job_error w1)
          else if is_Timeout e then
            (if timeout_attempt = 0 then make_https_request net u 1 w1
             else (Exit 1, record_job_error w1))
          else (Exit 1, record_job_error w1)
      | Inr (status_code, text) \<Rightarrow>
          if status_code \<noteq> 200 then (Return None, w1) else (Return (Some text), w1))"
  by pat_completeness auto
termination
  by (relation "measure (\<lambda>(net, u, timeout_attempt, w). 1 - timeout_attempt)") auto

declare make_https_request.simps [simp del]

text \<open>
  \<^verbatim>\<open>fetch_certificate_batch(logger, url, starting_index, ending_index, jobs_manager)\<close>.
  The body of a response to \<^verbatim>\<open>get-entries\<close> is kept as the value \<^verbatim>\<open>json.loads\<close> gives.
\<close>

definition fetch_certificate_batch ::
  "(url list \<Rightarrow> url \<Rightarrow> 'a http_outcome) \<Rightarrow> int \<Rightarrow> int \<Rightarrow> world \<Rightarrow> 'a call \<times> world" where
  "fetch_certificate_batch net starting_index ending_index w =
     (case make_https_request net (Get_entries starting_index ending_index) 0 w of
        (Exit status, w1) \<Rightarrow> (Exit status, w1)
      | (Return result, w1) \<Rightarrow>
          (case (if result = None
                 then make_https_request net (Get_entries starting_index ending_index) 0
                        (w1\<lparr> slept := slept w1 @ [600] \<rparr>)
                 else (Return result, w1)) of
             (Exit status, w2) \<Rightarrow> (Exit status, w2)
           | (Return result2, w2) \<Rightarrow>
               (case result2 of
                  None \<Rightarrow> (Exit 1, record_job_error w2)
                | Some text \<Rightarrow> (Return text, w2))))"

section \<open>Crawl orchestrator\<close>

text \<open>
  One element of the \<^verbatim>\<open>"entries"\<close> array of a \<^verbatim>\<open>get-entries\<close> response. The body of such a
  response is the list of its entries.
\<close>

record entry =
  leaf_input :: string
  extra_data :: string

text \<open>
  What the loop of \<^verbatim>\<open>main\<close> reads and does not change: the base64 decoder, the
  certificate parser \<^verbatim>\<open>x509parser.parse_data\<close> (an external library, \<open>None\<close> when it
  returns \<^verbatim>\<open>None\<close>), the flag \<^verbatim>\<open>args.include_precerts\<close>, the log source, the tracked zones
  and organisations, and the reading of \<^verbatim>\<open>datetime.now()\<close> while the entry at a given
  index is handled.
\<close>

record crawl_env =
  env_b64decode :: "string \<Rightarrow> py_error + bytes"
  env_parse_data :: "bytes option \<Rightarrow> string \<Rightarrow> certificate option"
  env_include_precerts :: bool
  env_source :: string
  env_zones :: "string list"
  env_ssl_orgs :: "string list"
  env_now :: "int \<Rightarrow> int"

text \<open>
  The body of \<^verbatim>\<open>for entry in certs["entries"]\<close> (lines 470 to 509), in two parts.
  \<open>main_extract\<close> is lines 470 to 478: the leaf is decoded, and the entry is either
  skipped (the two \<^verbatim>\<open>continue\<close> branches) or gives the pair of \<^verbatim>\<open>der_cert\<close> and
  \<^verbatim>\<open>cert_type\<close> that goes on to the parser; for a precertificate the certificate is read
  from \<^verbatim>\<open>extra_data\<close>.
\<close>

datatype extraction = Skipped | Extracted "bytes option" int

definition main_extract :: "crawl_env \<Rightarrow> entry \<Rightarrow> py_error + extraction" where
  "main_extract env e =
     (case get_cert_from_leaf (env_b64decode env) (leaf_input e) of
        Inl err \<Rightarrow> Inl err
      | Inr (der_cert, cert_type) \<Rightarrow>
          if der_cert = None \<and> cert_type = 1 \<and> \<not> env_include_precerts env then Inr Skipped
          else if der_cert = None \<and> cert_type = 0 then Inr Skipped
          else if der_cert = None \<and> cert_type = 1 then
            (case get_cert_from_extra_data (env_b64decode env) (extra_data e) of
               Inl err \<Rightarrow> Inl err
             | Inr c \<Rightarrow> Inr (Extracted (Some c) cert_type))
          else Inr (Extracted der_cert cert_type))"

text \<open>
  \<open>main_persist\<close> is lines 480 to 509, on the pair of \<^verbatim>\<open>current_index\<close> and the
  collection: parse, tag, filter, insert or update, and advance the cursor. Writing the
  certificate to disk (\<^verbatim>\<open>write_file\<close>) touches neither and is left out, as is the logger.
\<close>

definition main_persist ::
  "crawl_env \<Rightarrow> bytes option \<Rightarrow> int \<Rightarrow> int \<times> collection \<Rightarrow> py_error + (int \<times> collection)" where
  "main_persist env der_cert cert_type st =
     (case st of (current_index, coll) \<Rightarrow>
      (case env_parse_data env der_cert (env_source env) of
         None \<Rightarrow> Inr (current_index + 1, coll)
       | Some parsed \<Rightarrow>
           (let cert = parsed\<lparr> ct_log_type :=
                         (if cert_type = 1 then ''PRE-CERTIFICATE'' else ''CERTIFICATE'') \<rparr>;
                cert_zones = check_zone_relevancy cert (env_zones env)
            in if check_org_relevancy cert (env_ssl_orgs env) \<or> cert_zones \<noteq> []
               then
                 (let cert2 = cert\<lparr> source_ids :=
                                  AList.update (env_source env) current_index (source_ids cert),
                                zones := cert_zones \<rparr>
                  in case insert_certificate (env_now env current_index) cert2
                            (env_source env) coll cert_zones of
                       Inl err \<Rightarrow> Inl err
                     | Inr coll2 \<Rightarrow> Inr (current_index + 1, coll2))
               else Inr (current_index + 1, coll))))"

definition process_entry ::
  "crawl_env \<Rightarrow> entry \<Rightarrow> int \<times> collection \<Rightarrow> py_error + (int \<times> collection)" where
  "process_entry env e st =
     (case main_extract env e of
        Inl err \<Rightarrow> Inl err
      | Inr Skipped \<Rightarrow> Inr (fst st + 1, snd st)
      | Inr (Extracted der_cert cert_type) \<Rightarrow> main_persist env der_cert cert_type st)"

text \<open>
  The \<^verbatim>\<open>for\<close> loop over one batch. An exception ends it; the pair reached is returned
  with the exception, since the entries before it have been handled.
\<close>

fun process_entries ::
  "crawl_env \<Rightarrow> entry list \<Rightarrow> int \<times> collection \<Rightarrow> py_error option \<times> (int \<times> collection)" where
  "process_entries env [] st = (None, st)"
| "process_entries env (e # es) st =
     (case process_entry env e st of
        Inl err \<Rightarrow> (Some err, st)
      | Inr st2 \<Rightarrow> process_entries env es st2)"

text \<open>
  The \<^verbatim>\<open>while\<close> loop of \<^verbatim>\<open>main\<close> (lines 449 to 509). It ends when the cursor reaches the
  tree size, when a fetch exits the process, or on an uncaught exception. A log that
  keeps answering with no entries keeps the loop running: the result is then \<open>None\<close>.
\<close>

datatype loop_end = Loop_done | Fatal_exit int | Uncaught py_error

record crawl_state =
  current_index :: int
  store :: collection
  net_world :: world

partial_function (option) main_loop ::
  "crawl_env \<Rightarrow> (url list \<Rightarrow> url \<Rightarrow> entry list http_outcome) \<Rightarrow> int \<Rightarrow> crawl_state
     \<Rightarrow> (loop_end \<times> crawl_state) option" where
  "main_loop env net tree_size st =
     (if current_index st < tree_size then
        (let ending_index = (if current_index st + 256 > tree_size then tree_size
                             else current_index st + 256)
         in case fetch_certificate_batch net (current_index st) ending_index (net_world st) of
              (Exit status, w) \<Rightarrow> Some (Fatal_exit status, st\<lparr> net_world := w \<rparr>)
            | (Return certs, w) \<Rightarrow>
                (case process_entries env certs (current_index st, store st) of
                   (Some err, (i, coll)) \<Rightarrow>
                     Some (Uncaught err, \<lparr> current_index = i, store = coll, net_world = w \<rparr>)
                 | (None, (i, coll)) \<Rightarrow>
                     main_loop env net tree_size
                       \<lparr> current_index = i, store = coll, net_world = w \<rparr>))
      else Some (Loop_done, st))"

section \<open>A base64 decoder and example data\<close>

text \<open>
  The decoder used in the examples reads canonical base64: the standard alphabet, whole
  groups of four characters, \<open>=\<close> padding in the last group only. Python's
  \<^verbatim>\<open>base64.b64decode\<close> gives the same bytes on such input, and the empty byte string on
  the empty string. The theorems hold for every decoder.
\<close>

definition b64_value :: "char \<Rightarrow> nat option" where
  "b64_value c =
     (let n = (of_char c :: nat) in
      if 65 \<le> n \<and> n \<le> 90 then Some (n - 65)
      else if 97 \<le> n \<and> n \<le> 122 then Some (n - 71)
      else if 48 \<le> n \<and> n \<le> 57 then Some (n + 4)
      else if n = 43 then Some 62
      else if n = 47 then Some 63
      else None)"

fun b64decode_canonical :: "string \<Rightarrow> py_error + bytes" where
  "b64decode_canonical [] = Inr []"
| "b64decode_canonical (a # b # c # d # rest) =
     (case (b64_value a, b64_value b) of
        (Some x, Some y) \<Rightarrow>
          (let n1 = x * 4 + y div 16 in
           if c = CHR ''='' \<and> d = CHR ''='' \<and> rest = [] then Inr [of_nat n1]
           else
             (case b64_value c of
                None \<Rightarrow> Inl Base64Error
              | Some z \<Rightarrow>
                  (let n2 = (y mod 16) * 16 + z div 4 in
                   if d = CHR ''='' \<and> rest = [] then Inr [of_nat n1, of_nat n2]
                   else
                     (case b64_value d of
                        None \<Rightarrow> Inl Base64Error
                      | Some v \<Rightarrow>
                          (case b64decode_canonical rest of
                             Inl e \<Rightarrow> Inl e
                           | Inr bs \<Rightarrow>
                               Inr (of_nat n1 # of_nat n2 # of_nat ((z mod 4) * 64 + v) # bs))))))
      | _ \<Rightarrow> Inl Base64Error)"
| "b64decode_canonical _ = Inl Base64Error"

text \<open>
  An example parser and an example run configuration. The parser rejects the empty byte
  string and reads every other one as the same certificate.
\<close>

definition example_parse_data :: "bytes option \<Rightarrow> string \<Rightarrow> certificate option" where
  "example_parse_data der_cert src =
     (case der_cert of
        None \<Rightarrow> None
      | Some der \<Rightarrow>
          if der = [] then None
          else Some \<lparr> fingerprint_sha256 = ''fp'',
                      subject_organization_name = Some [''Example Org''],
                      subject_common_names = Some [''www.example.com''],
                      subject_dns_names = Some [''www.example.com'', ''example.org''],
                      not_after = 2000, isExpired = False, ct_log_type = [],
                      zones = [], sources = [src], marinus_updated = 0, source_ids = [] \<rparr>)"

definition example_env :: crawl_env where
  "example_env =
     \<lparr> env_b64decode = b64decode_canonical, env_parse_data = example_parse_data,
       env_include_precerts = True, env_source = ''aviator'', env_zones = [''example.com''],
       env_ssl_orgs = [''Example Org''], env_now = (\<lambda>i. 1000 + i) \<rparr>"

section \<open>The zone match as the specification words it\<close>

text \<open>
  A candidate name matches a zone when it equals the zone or ends with a dot followed by
  the zone. The candidate names of a certificate are its common names and then its DNS
  names, each list in its own order. \<open>first_seen\<close> keeps the first occurrence of every
  element of a list, in order. \<open>matchZones\<close> collects, name by name, the tracked zones the
  name matches, and keeps the first occurrence of each.
\<close>

definition zone_matches :: "string \<Rightarrow> string \<Rightarrow> bool" where
  "zone_matches cn zone = (cn = zone \<or> suffix (''.'' @ zone) cn)"

fun first_seen :: "'a list \<Rightarrow> 'a list" where
  "first_seen [] = []"
| "first_seen (x # xs) = x # filter (\<lambda>y. y \<noteq> x) (first_seen xs)"

definition candidate_names :: "certificate \<Rightarrow> string list" where
  "candidate_names cert =
     (case subject_common_names cert of None \<Rightarrow> [] | Some cns \<Rightarrow> cns)
     @ (case subject_dns_names cert of None \<Rightarrow> [] | Some dns \<Rightarrow> dns)"

definition matchZones :: "certificate \<Rightarrow> string list \<Rightarrow> string list" where
  "matchZones cert trackedZones =
     first_seen
       (concat (map (\<lambda>cn. filter (zone_matches cn) trackedZones) (candidate_names cert)))"

text \<open>One step of the accumulation both loops of \<open>check_zone_relevancy\<close> perform.\<close>

definition add_new :: "'a list \<Rightarrow> 'a \<Rightarrow> 'a list" where
  "add_new acc z = (if z \<notin> set acc then acc @ [z] else acc)"

text \<open>A parsed certificate with the given common names and DNS names.\<close>

definition example_names :: "string list \<Rightarrow> string list \<Rightarrow> certificate" where
  "example_names cns dns =
     \<lparr> fingerprint_sha256 = ''fp'', subject_organization_name = None,
       subject_common_names = Some cns, subject_dns_names = Some dns,
       not_after = 2000, isExpired = False, ct_log_type = ''CERTIFICATE'',
       zones = [], sources = [], marinus_updated = 0, source_ids = [] \<rparr>"

section \<open>Auxiliary notions for the store\<close>

text \<open>
  The values of the key \<^verbatim>\<open>{source}_id\<close> in the store, in document order; the number of
  documents with a fingerprint; the update document of \<open>insert_certificate\<close> applied to a
  stored document; and the relation between a store and a later one that every document
  of the first is still there, at its place, and expired if it was.
\<close>

definition stored_ids :: "collection \<Rightarrow> string \<Rightarrow> int list" where
  "stored_ids coll src = List.map_filter (\<lambda>doc. map_of (source_ids doc) src) coll"

definition count_fingerprint :: "collection \<Rightarrow> string \<Rightarrow> nat" where
  "count_fingerprint coll fp = length (filter (\<lambda>doc. fingerprint_sha256 doc = fp) coll)"

definition upsert_update ::
  "int \<Rightarrow> certificate \<Rightarrow> string \<Rightarrow> int \<Rightarrow> string list \<Rightarrow> certificate \<Rightarrow> certificate" where
  "upsert_update now cert src n cz doc =
     doc\<lparr> source_ids := AList.update src n (source_ids doc),
          ct_log_type := ct_log_type cert,
          zones := cz,
          marinus_updated := now,
          sources := addToSet src (sources doc) \<rparr>"

definition keeps_expired :: "collection \<Rightarrow> collection \<Rightarrow> bool" where
  "keeps_expired coll coll2 =
     (length coll \<le> length coll2
      \<and> list_all (\<lambda>i. isExpired (coll ! i) \<le> isExpired (coll2 ! i)) [0..<length coll])"

text \<open>Example documents and stores.\<close>

definition example_doc :: "string \<Rightarrow> (string \<times> int) list \<Rightarrow> certificate" where
  "example_doc fp ids =
     \<lparr> fingerprint_sha256 = fp, subject_organization_name = None,
       subject_common_names = None, subject_dns_names = None,
       not_after = 2000, isExpired = False, ct_log_type = ''CERTIFICATE'',
       zones = [], sources = map fst ids, marinus_updated = 0, source_ids = ids \<rparr>"

definition example_store :: collection where
  "example_store =
     [example_doc ''f1'' [(''aviator'', 5)],
      example_doc ''f2'' [(''pilot'', 40), (''aviator'', 12)],
      example_doc ''f3'' [(''pilot'', 77)],
      example_doc ''f4'' [(''aviator'', 9)]]"

definition example_expiry :: "string \<Rightarrow> int \<Rightarrow> bool \<Rightarrow> certificate" where
  "example_expiry fp t expired = (example_doc fp [])\<lparr> not_after := t, isExpired := expired \<rparr>"

definition example_expiry_store :: collection where
  "example_expiry_store =
     [example_expiry ''past'' 100 False, example_expiry ''marked'' 50 True,
      example_expiry ''future'' 900 False, example_expiry ''odd'' 900 True]"

section \<open>Auxiliary notions for the fetch client and the loop\<close>




text \<open>
  Example logs, over the world with no request made. \<open>timeout_once_log\<close> times out on
  the first request and would answer the next; \<open>error_once_log\<close> answers the first
  request with status 404 and the next with status 200. \<open>exact_log\<close> answers a window from
  \<open>s\<close> to \<open>e\<close> with the \<open>e - s\<close> entries from \<open>s\<close>; the entry at index 150 is an X.509 leaf
  whose declared length does not match. \<open>inclusive_log\<close>, for a tree of size 300, reads
  the end of a window as the index of the last entry to return, as RFC 6962 words it, so it
  answers the window from 0 to 256 with 257 entries.
\<close>

definition start_world :: world where
  "start_world = \<lparr> requested = [], slept = [], job_errors = 0 \<rparr>"


definition error_once_log :: "url list \<Rightarrow> url \<Rightarrow> entry list http_outcome" where
  "error_once_log history u =
     (if history = [] then Get_response 404 [] else Get_response 200 [])"








section \<open>Properties of the leaf decoder\<close>

lemma int_from_bytes_nonneg: "0 \<le> int_from_bytes bs"
proof -
  have "0 \<le> a \<Longrightarrow> 0 \<le> foldl (\<lambda>acc b. acc * 256 + int (unat b)) a bs" for a :: int
    by (induction bs arbitrary: a) simp_all
  then show ?thesis by (simp add: int_from_bytes_def)
qed

lemma int_from_bytes_Nil: "int_from_bytes [] = 0"
  by (simp add: int_from_bytes_def)

lemma int_from_bytes_single: "int_from_bytes [b] = int (unat b)"
  by (simp add: int_from_bytes_def)

lemma read_leaf_header_short: "length buf < 2 \<Longrightarrow> read_leaf_header buf = Inl IndexError"
  by (auto simp add: read_leaf_header_def)

lemma read_leaf_header_ok:
  "2 \<le> length buf \<Longrightarrow>
   read_leaf_header buf =
     Inr \<lparr> version = int (unat (buf ! 0)),
           merkle_leaf_type = int (unat (buf ! 1)),
           timestamp = int_from_bytes (py_slice 2 10 buf),
           LogEntryType = int_from_bytes (py_slice 10 12 buf),
           Entry = drop 12 buf \<rparr>"
  by (auto simp add: read_leaf_header_def)

lemma slice_type_short: "length buf \<le> 10 \<Longrightarrow> py_slice 10 12 buf = []"
  by (simp add: py_slice_def)

lemma slice_type_eleven: "length buf = 11 \<Longrightarrow> py_slice 10 12 buf = [buf ! 10]"
proof -
  assume l: "length buf = 11"
  then have "drop 10 buf = buf ! 10 # drop 11 buf"
    by (simp add: Cons_nth_drop_Suc [symmetric])
  with l show ?thesis by (simp add: py_slice_def)
qed

lemma get_cert_from_leaf_no_payload:
  assumes dec: "b64decode leaf = Inr buf" and l2: "2 \<le> length buf" and l12: "length buf \<le> 12"
  shows "get_cert_from_leaf b64decode leaf = Inr (None, int_from_bytes (py_slice 10 12 buf))"
  using dec l12
  by (simp add: get_cert_from_leaf_def read_leaf_header_ok [OF l2] py_slice_def
      int_from_bytes_Nil Let_def)

text \<open>
  C2, as the code has it. For an X.509 entry (entry type 0) whose declared length \<open>L\<close>, the
  big-endian value of the first three payload bytes, equals the length of the rest of the
  payload minus 2, \<open>get_cert_from_leaf\<close> returns the whole rest of the payload: the \<open>L\<close>
  certificate bytes and the two trailing bytes, \<open>L + 2\<close> bytes in all.
\<close>

theorem x509_leaf_returns_payload_with_trailer:
  assumes dec: "b64decode leaf = Inr buf"
    and hdr: "read_leaf_header buf = Inr header"
    and ty: "LogEntryType header = 0"
    and len: "int_from_bytes (py_slice 0 3 (Entry header))
                = int (length (drop 3 (Entry header))) - 2"
  shows "get_cert_from_leaf b64decode leaf = Inr (Some (drop 3 (Entry header)), 0)
         \<and> int (length (drop 3 (Entry header)))
             = int_from_bytes (py_slice 0 3 (Entry header)) + 2"
  using dec hdr ty len by (simp add: get_cert_from_leaf_def)

theorem x509_leaf_witness:
  "b64decode_canonical ''AAAAAAAAAAAAAAAAAAABqgAA''
     = Inr [0, 0, 0, 0, 0, 0, 0, 0, 0, 0, 0, 0, 0, 0, 1, 170, 0, 0]
   \<and> read_leaf_header [0, 0, 0, 0, 0, 0, 0, 0, 0, 0, 0, 0, 0, 0, 1, 170, 0, 0]
       = Inr \<lparr> version = 0, merkle_leaf_type = 0, timestamp = 0, LogEntryType = 0,
               Entry = [0, 0, 1, 170, 0, 0] \<rparr>
   \<and> int_from_bytes (py_slice 0 3 [0, 0, 1, 170, 0, 0]) = 1
   \<and> get_cert_from_leaf b64decode_canonical ''AAAAAAAAAAAAAAAAAAABqgAA''
       = Inr (Some [170, 0, 0], 0)"
  using x509_leaf_returns_payload_with_trailer
    [of b64decode_canonical "''AAAAAAAAAAAAAAAAAAABqgAA''"
        "[0, 0, 0, 0, 0, 0, 0, 0, 0, 0, 0, 0, 0, 0, 1, 170, 0, 0]"
        "\<lparr> version = 0, merkle_leaf_type = 0, timestamp = 0, LogEntryType = 0,
           Entry = [0, 0, 1, 170, 0, 0] \<rparr>"]
  by (simp add: b64_value_def py_slice_def int_from_bytes_def read_leaf_header_def)

text \<open>
  The leaf \<^verbatim>\<open>AAAAAAAAAAAAAAAAAAABqgAA\<close> is an X.509 entry: its entry type is 0 and its
  declared length is 1, consistent with the three payload bytes that follow the length.
  The byte string returned has 3 bytes, not 1.
\<close>

theorem x509_leaf_length_counterexample:
  "b64decode_canonical ''AAAAAAAAAAAAAAAAAAABqgAA''
     = Inr [0, 0, 0, 0, 0, 0, 0, 0, 0, 0, 0, 0, 0, 0, 1, 170, 0, 0]
   \<and> read_leaf_header [0, 0, 0, 0, 0, 0, 0, 0, 0, 0, 0, 0, 0, 0, 1, 170, 0, 0]
       = Inr \<lparr> version = 0, merkle_leaf_type = 0, timestamp = 0, LogEntryType = 0,
               Entry = [0, 0, 1, 170, 0, 0] \<rparr>
   \<and> int_from_bytes (py_slice 0 3 [0, 0, 1, 170, 0, 0]) = 1
   \<and> int (length (drop 3 [0 :: byte, 0, 1, 170, 0, 0])) - 2 = 1
   \<and> get_cert_from_leaf b64decode_canonical ''AAAAAAAAAAAAAAAAAAABqgAA''
       = Inr (Some [170, 0, 0], 0)
   \<and> length [170 :: byte, 0, 0] \<noteq> 1"
  by (simp add: get_cert_from_leaf_def read_leaf_header_def py_slice_def int_from_bytes_def
      b64_value_def)

text \<open>
  C6. For an entry whose leaf has entry type 1, handled with \<^verbatim>\<open>include_precerts\<close> set, the
  certificate that goes to the parser is the slice \<^verbatim>\<open>[3 : L + 4]\<close> of the decoded
  \<^verbatim>\<open>extra_data\<close>, where \<open>L\<close> is the big-endian value of its first three bytes; when the
  data is long enough this slice has \<open>L + 1\<close> bytes, one more than \<^verbatim>\<open>[3 : L + 3]\<close>.
\<close>

theorem precert_extract_slice:
  assumes leaf: "env_b64decode env (leaf_input e) = Inr buf"
    and hdr: "read_leaf_header buf = Inr header"
    and ty: "LogEntryType header = 1"
    and inc: "env_include_precerts env"
    and extra: "env_b64decode env (extra_data e) = Inr data"
  shows "main_extract env e =
           Inr (Extracted
                  (Some (py_slice 3 (nat (int_from_bytes (py_slice 0 3 data)) + 4) data)) 1)
         \<and> (nat (int_from_bytes (py_slice 0 3 data)) + 4 \<le> length data \<longrightarrow>
              length (py_slice 3 (nat (int_from_bytes (py_slice 0 3 data)) + 4) data)
                = nat (int_from_bytes (py_slice 0 3 data)) + 1)"
proof -
  have a: "get_cert_from_leaf (env_b64decode env) (leaf_input e) = Inr (None, 1)"
    using leaf hdr ty by (simp add: get_cert_from_leaf_def)
  have n: "nat (int_from_bytes (py_slice 0 3 data) + 4)
             = nat (int_from_bytes (py_slice 0 3 data)) + 4"
    using int_from_bytes_nonneg [of "py_slice 0 3 data"] by linarith
  have "main_extract env e =
           Inr (Extracted
                  (Some (py_slice 3 (nat (int_from_bytes (py_slice 0 3 data)) + 4) data)) 1)"
    using inc extra by (simp add: main_extract_def a get_cert_from_extra_data_def n)
  moreover have "nat (int_from_bytes (py_slice 0 3 data)) + 4 \<le> length data \<longrightarrow>
              length (py_slice 3 (nat (int_from_bytes (py_slice 0 3 data)) + 4) data)
                = nat (int_from_bytes (py_slice 0 3 data)) + 1"
    by (auto simp add: py_slice_def [of 3])
  ultimately show ?thesis by blast
qed

theorem precert_extract_witness:
  "b64decode_canonical ''AAAAAAAAAAAAAAABCQkJ'' = Inr [0, 0, 0, 0, 0, 0, 0, 0, 0, 0, 0, 1, 9, 9, 9]
   \<and> b64decode_canonical ''AAACqrvM3Q=='' = Inr [0, 0, 2, 170, 187, 204, 221]
   \<and> main_extract example_env
        \<lparr> leaf_input = ''AAAAAAAAAAAAAAABCQkJ'', extra_data = ''AAACqrvM3Q=='' \<rparr>
       = Inr (Extracted (Some [170, 187, 204]) 1)"
  using precert_extract_slice [of example_env
      "\<lparr> leaf_input = ''AAAAAAAAAAAAAAABCQkJ'', extra_data = ''AAACqrvM3Q=='' \<rparr>"
      "[0, 0, 0, 0, 0, 0, 0, 0, 0, 0, 0, 1, 9, 9, 9]"
      "\<lparr> version = 0, merkle_leaf_type = 0, timestamp = 0, LogEntryType = 1,
         Entry = [9, 9, 9] \<rparr>"
      "[0, 0, 2, 170, 187, 204, 221]"]
  by (simp add: example_env_def b64_value_def py_slice_def int_from_bytes_def
      read_leaf_header_def)

text \<open>
  C9, as the code has it. \<open>read_leaf_header\<close> checks no length. A decoded buffer of
  fewer than 2 bytes raises \<^verbatim>\<open>IndexError\<close>, which nothing in the loop catches. A buffer of
  2 to 10 bytes is decoded to no certificate and entry type 0, and the loop skips the entry
  and advances the cursor by one. A buffer of 11 bytes is decoded to no certificate and the
  entry type given by its last byte \<open>t\<close>; the loop skips it when \<open>t = 0\<close>, and when \<open>t = 1\<close>
  and precertificates are not included.
\<close>

theorem short_leaf_buffer_decode:
  assumes dec: "env_b64decode env (leaf_input e) = Inr buf" and short: "length buf < 12"
  shows "(length buf < 2 \<longrightarrow>
            get_cert_from_leaf (env_b64decode env) (leaf_input e) = Inl IndexError
            \<and> process_entry env e (i, coll) = Inl IndexError)
       \<and> (2 \<le> length buf \<and> length buf \<le> 10 \<longrightarrow>
            get_cert_from_leaf (env_b64decode env) (leaf_input e) = Inr (None, 0)
            \<and> process_entry env e (i, coll) = Inr (i + 1, coll))
       \<and> (length buf = 11 \<longrightarrow>
            get_cert_from_leaf (env_b64decode env) (leaf_input e)
              = Inr (None, int (unat (buf ! 10)))
            \<and> (int (unat (buf ! 10)) = 0
                \<or> int (unat (buf ! 10)) = 1 \<and> \<not> env_include_precerts env \<longrightarrow>
                 process_entry env e (i, coll) = Inr (i + 1, coll)))"
proof (intro conjI impI)
  assume "length buf < 2"
  then show a: "get_cert_from_leaf (env_b64decode env) (leaf_input e) = Inl IndexError"
    using dec by (simp add: get_cert_from_leaf_def read_leaf_header_short)
  show "process_entry env e (i, coll) = Inl IndexError"
    by (simp add: process_entry_def main_extract_def a)
next
  assume h: "2 \<le> length buf \<and> length buf \<le> 10"
  then show a: "get_cert_from_leaf (env_b64decode env) (leaf_input e) = Inr (None, 0)"
    using get_cert_from_leaf_no_payload [of "env_b64decode env" "leaf_input e" buf, OF dec]
    by (simp add: slice_type_short int_from_bytes_Nil)
  show "process_entry env e (i, coll) = Inr (i + 1, coll)"
    by (simp add: process_entry_def main_extract_def a)
next
  assume h: "length buf = 11"
  then show a: "get_cert_from_leaf (env_b64decode env) (leaf_input e)
      = Inr (None, int (unat (buf ! 10)))"
    using get_cert_from_leaf_no_payload [of "env_b64decode env" "leaf_input e" buf, OF dec]
    by (simp add: slice_type_eleven int_from_bytes_single)
  assume "int (unat (buf ! 10)) = 0 \<or> int (unat (buf ! 10)) = 1 \<and> \<not> env_include_precerts env"
  then show "process_entry env e (i, coll) = Inr (i + 1, coll)"
    by (auto simp add: process_entry_def main_extract_def a)
qed

theorem short_leaf_buffer_witness:
  "process_entry example_env \<lparr> leaf_input = ''AAA='', extra_data = [] \<rparr> (7, []) = Inr (8, [])
   \<and> process_entry example_env \<lparr> leaf_input = ''AA=='', extra_data = [] \<rparr> (7, [])
       = Inl IndexError"
  using short_leaf_buffer_decode
      [of example_env "\<lparr> leaf_input = ''AAA='', extra_data = [] \<rparr>" "[0, 0]" 7 "[]"]
    short_leaf_buffer_decode
      [of example_env "\<lparr> leaf_input = ''AA=='', extra_data = [] \<rparr>" "[0]" 7 "[]"]
  by (simp add: example_env_def b64_value_def)

text \<open>
  The empty leaf decodes to the empty buffer, which is shorter than 12 bytes; reading its
  header raises \<^verbatim>\<open>IndexError\<close>, and so does the loop body.
\<close>

theorem short_leaf_buffer_counterexample:
  "b64decode_canonical [] = Inr []
   \<and> length ([] :: bytes) < 12
   \<and> read_leaf_header [] = Inl IndexError
   \<and> get_cert_from_leaf b64decode_canonical [] = Inl IndexError
   \<and> process_entry example_env \<lparr> leaf_input = [], extra_data = [] \<rparr> (0, [])
       = Inl IndexError"
  by (simp add: read_leaf_header_def get_cert_from_leaf_def process_entry_def main_extract_def
      example_env_def)



section \<open>Properties of the relevancy filter\<close>

lemma foldl_add_new:
  "foldl add_new acc xs = acc @ filter (\<lambda>x. x \<notin> set acc) (first_seen xs)"
proof (induction xs arbitrary: acc)
  case Nil
  show ?case by simp
next
  case (Cons x xs)
  show ?case
  proof (cases "x \<in> set acc")
    case True
    then have "filter (\<lambda>y. y \<notin> set acc) (filter (\<lambda>y. y \<noteq> x) (first_seen xs))
             = filter (\<lambda>y. y \<notin> set acc) (first_seen xs)"
      by (auto intro: filter_cong)
    moreover from True have "add_new acc x = acc"
      by (simp add: add_new_def)
    ultimately show ?thesis
      using True by (simp add: Cons.IH)
  next
    case False
    have "filter (\<lambda>y. y \<notin> set (acc @ [x])) (first_seen xs)
             = filter (\<lambda>y. y \<notin> set acc) (filter (\<lambda>y. y \<noteq> x) (first_seen xs))"
      by (auto intro: filter_cong)
    moreover from False have "add_new acc x = acc @ [x]"
      by (simp add: add_new_def)
    ultimately show ?thesis
      using False by (simp add: Cons.IH)
  qed
qed

lemma zone_loop_foldl:
  "zone_loop cn zs acc = foldl add_new acc (filter (zone_matches cn) zs)"
  by (induction zs arbitrary: acc) (simp_all add: zone_matches_def endswith_def add_new_def)

lemma name_loop_foldl:
  "name_loop cns zs acc
     = foldl add_new acc (concat (map (\<lambda>cn. filter (zone_matches cn) zs) cns))"
  by (induction cns arbitrary: acc) (simp_all add: zone_loop_foldl)

lemma check_zone_relevancy_foldl:
  "check_zone_relevancy cert zs
     = foldl add_new []
         (concat (map (\<lambda>cn. filter (zone_matches cn) zs) (candidate_names cert)))"
  by (simp add: check_zone_relevancy_def candidate_names_def name_loop_foldl
      split: option.split)

lemma set_first_seen: "set (first_seen xs) = set xs"
  by (induction xs) auto

lemma distinct_first_seen: "distinct (first_seen xs)"
  by (induction xs) (simp_all add: set_first_seen)

text \<open>
  C5. For every certificate and every list of tracked zones, \<open>check_zone_relevancy\<close>
  returns the zones some candidate name matches (the name equals the zone or ends with a
  dot and the zone), the names taken from the common names and then the DNS names; the
  result has no duplicate and is in first-seen order. A certificate named
  \<^verbatim>\<open>a.b.example.com\<close> matches the zone \<^verbatim>\<open>example.com\<close>; one named \<^verbatim>\<open>notexample.com\<close> does not.
\<close>

theorem check_zone_relevancy_is_matchZones:
  "check_zone_relevancy cert zs = matchZones cert zs
   \<and> distinct (check_zone_relevancy cert zs)
   \<and> set (check_zone_relevancy cert zs)
       = {z \<in> set zs. \<exists>cn \<in> set (candidate_names cert). cn = z \<or> suffix (''.'' @ z) cn}
   \<and> (candidate_names c1 = [''a.b.example.com'']
        \<longrightarrow> check_zone_relevancy c1 [''example.com''] = [''example.com''])
   \<and> (candidate_names c2 = [''notexample.com'']
        \<longrightarrow> check_zone_relevancy c2 [''example.com''] = [])"
proof -
  have eq: "check_zone_relevancy c z = matchZones c z" for c z
    by (simp add: check_zone_relevancy_foldl foldl_add_new matchZones_def)
  have d: "distinct (matchZones cert zs)"
    by (simp add: matchZones_def distinct_first_seen)
  have s: "set (matchZones cert zs)
       = {z \<in> set zs. \<exists>cn \<in> set (candidate_names cert). cn = z \<or> suffix (''.'' @ z) cn}"
    by (auto simp add: matchZones_def set_first_seen zone_matches_def)
  have m1: "candidate_names c1 = [''a.b.example.com'']
        \<longrightarrow> matchZones c1 [''example.com''] = [''example.com'']"
    by (simp add: matchZones_def zone_matches_def suffix_to_prefix)
  have m2: "candidate_names c2 = [''notexample.com'']
        \<longrightarrow> matchZones c2 [''example.com''] = []"
    by (simp add: matchZones_def zone_matches_def suffix_to_prefix)
  show ?thesis using d s m1 m2 by (simp add: eq)
qed

theorem check_zone_relevancy_witness:
  "check_zone_relevancy
     (example_names [''a.b.example.com'', ''notexample.com''] [''x.example.org'', ''example.com''])
     [''example.org'', ''example.com'', ''b.example.com'', ''example.com'']
   = [''example.com'', ''b.example.com'', ''example.org'']
   \<and> matchZones
     (example_names [''a.b.example.com'', ''notexample.com''] [''x.example.org'', ''example.com''])
     [''example.org'', ''example.com'', ''b.example.com'', ''example.com'']
   = [''example.com'', ''b.example.com'', ''example.org'']
   \<and> check_zone_relevancy (example_names [''a.b.example.com''] []) [''example.com'']
       = [''example.com'']
   \<and> check_zone_relevancy (example_names [''notexample.com''] []) [''example.com''] = []"
  using check_zone_relevancy_is_matchZones
    [of "example_names [''a.b.example.com'', ''notexample.com'']
           [''x.example.org'', ''example.com'']"
        "[''example.org'', ''example.com'', ''b.example.com'', ''example.com'']"
        "example_names [''a.b.example.com''] []"
        "example_names [''notexample.com''] []"]
  by (simp add: check_zone_relevancy_def example_names_def endswith_def suffix_to_prefix
      matchZones_def candidate_names_def zone_matches_def)

section \<open>Properties of the store\<close>

lemma sorted_le_last:
  fixes xs :: "int list"
  shows "sorted xs \<Longrightarrow> x \<in> set xs \<Longrightarrow> x \<le> last xs"
  by (induction xs) auto

lemma take_1_rev_sort:
  fixes ids :: "int list"
  assumes "ids \<noteq> []"
  shows "take (Suc 0) (rev (sort ids)) = [Max (set ids)]"
proof -
  let ?ys = "sort ids"
  have ne: "?ys \<noteq> []"
  proof
    assume e: "?ys = []"
    have "length ids = length ?ys" by simp
    also have "\<dots> = 0" by (simp only: e list.size)
    finally show False using assms by simp
  qed
  have "last ?ys \<in> set ?ys" using ne by (rule last_in_set)
  moreover have "x \<le> last ?ys" if "x \<in> set ?ys" for x
    using that by (intro sorted_le_last) simp_all
  ultimately have "Max (set ?ys) = last ?ys"
    by (intro Max_eqI) auto
  then have m: "last ?ys = Max (set ids)" by simp
  have "rev ?ys \<noteq> []" using ne by simp
  then have "take (Suc 0) (rev ?ys) = [hd (rev ?ys)]"
    by (cases "rev ?ys") simp_all
  then show ?thesis by (simp add: hd_rev m)
qed

text \<open>
  C4, as the code has it. The starting index is the value of \<^verbatim>\<open>--starting_index\<close> whenever
  that value is not \<open>-1\<close>, negative values included; when it is \<open>-1\<close> (the default, so also
  when no value is given) it is the greatest \<^verbatim>\<open>{source}_id\<close> among the documents that have
  that key, and 0 when no document has it.
\<close>

theorem starting_index_resolution:
  "(arg \<noteq> -1 \<longrightarrow> main_starting_index arg coll src = Some arg)
   \<and> (arg = -1 \<and> stored_ids coll src \<noteq> [] \<longrightarrow>
        main_starting_index arg coll src = Some (Max (set (stored_ids coll src))))
   \<and> (arg = -1 \<and> stored_ids coll src = [] \<longrightarrow> main_starting_index arg coll src = Some 0)"
  by (simp add: main_starting_index_def fetch_starting_index_def stored_ids_def [symmetric]
      take_1_rev_sort Let_def)

theorem starting_index_witness:
  "stored_ids example_store ''aviator'' = [5, 12, 9]
   \<and> main_starting_index (-1) example_store ''aviator'' = Some 12
   \<and> main_starting_index (-1) example_store ''nimbus'' = Some 0
   \<and> main_starting_index 7 example_store ''aviator'' = Some 7"
  using starting_index_resolution [of "-1" example_store "''aviator''"]
    starting_index_resolution [of "-1" example_store "''nimbus''"]
    starting_index_resolution [of 7 example_store "''aviator''"]
  by (simp add: stored_ids_def example_store_def example_doc_def)

text \<open>
  With stored values 5, 12 and 9 and the override \<open>-5\<close>, which is not \<open>\<ge> 0\<close>, the run starts
  at \<open>-5\<close> and not at 12.
\<close>

theorem starting_index_negative_override_counterexample:
  "stored_ids example_store ''aviator'' = [5, 12, 9]
   \<and> \<not> (0 \<le> (-5 :: int))
   \<and> main_starting_index (-5) example_store ''aviator'' = Some (-5)"
  by (simp add: stored_ids_def example_store_def example_doc_def main_starting_index_def)

lemma update_many_length: "length (update_many p f coll) = length coll"
  by (simp add: update_many_def)

lemma update_many_nth:
  "i < length coll \<Longrightarrow>
   update_many p f coll ! i = (if p (coll ! i) then f (coll ! i) else coll ! i)"
  by (simp add: update_many_def)

lemma count_update_many:
  assumes "\<And>doc. fingerprint_sha256 (f doc) = fingerprint_sha256 doc"
  shows "count_fingerprint (update_many p f coll) fp = count_fingerprint coll fp"
  using assms by (induction coll) (simp_all add: update_many_def count_fingerprint_def)

lemma fingerprints_update_many:
  assumes "\<And>doc. fingerprint_sha256 (f doc) = fingerprint_sha256 doc"
  shows "map fingerprint_sha256 (update_many p f coll) = map fingerprint_sha256 coll"
  using assms by (induction coll) (simp_all add: update_many_def)

lemma set_addToSet: "set (addToSet x xs) = insert x (set xs)"
  by (auto simp add: addToSet_def)

lemma insert_certificate_absent:
  "count_fingerprint coll (fingerprint_sha256 cert) = 0 \<Longrightarrow>
   insert_certificate now cert src coll cz = Inr (coll @ [cert])"
  by (simp add: insert_certificate_def count_fingerprint_def insert_one_def)

lemma insert_certificate_present:
  "count_fingerprint coll (fingerprint_sha256 cert) \<noteq> 0 \<Longrightarrow>
   map_of (source_ids cert) src = Some n \<Longrightarrow>
   insert_certificate now cert src coll cz =
     Inr (update_many (\<lambda>doc. fingerprint_sha256 doc = fingerprint_sha256 cert)
            (upsert_update now cert src n cz) coll)"
  by (simp add: insert_certificate_def count_fingerprint_def upsert_update_def [abs_def])

lemma insert_certificate_no_id:
  "count_fingerprint coll (fingerprint_sha256 cert) \<noteq> 0 \<Longrightarrow>
   map_of (source_ids cert) src = None \<Longrightarrow>
   insert_certificate now cert src coll cz = Inl KeyError"
  by (simp add: insert_certificate_def count_fingerprint_def)

lemma upsert_update_fingerprint:
  "fingerprint_sha256 (upsert_update now cert src n cz doc) = fingerprint_sha256 doc"
  by (simp add: upsert_update_def)

text \<open>
  C3. When no document has the fingerprint of the certificate, \<open>insert_certificate\<close>
  appends the certificate, which is then the one document with that fingerprint. When
  some document has it (and the certificate carries its \<^verbatim>\<open>{source}_id\<close>, as it does in
  \<^verbatim>\<open>main\<close>), no document is added and the number of documents per fingerprint is
  unchanged; each document with the fingerprint gets the \<^verbatim>\<open>{source}_id\<close> and the
  \<^verbatim>\<open>ct_log_type\<close> of the certificate, the clock reading as \<^verbatim>\<open>marinus_updated\<close>, the current
  match set as \<^verbatim>\<open>zones\<close>, and the source added to its \<^verbatim>\<open>sources\<close>, none removed; every
  other document is unchanged.
\<close>

theorem upsert_by_fingerprint:
  "(count_fingerprint coll (fingerprint_sha256 cert) = 0 \<longrightarrow>
      insert_certificate now cert src coll cz = Inr (coll @ [cert])
      \<and> count_fingerprint (coll @ [cert]) (fingerprint_sha256 cert) = 1)
   \<and> (count_fingerprint coll (fingerprint_sha256 cert) \<noteq> 0
       \<and> map_of (source_ids cert) src = Some n \<longrightarrow>
      (\<exists>coll2. insert_certificate now cert src coll cz = Inr coll2
        \<and> length coll2 = length coll
        \<and> (\<forall>fp. count_fingerprint coll2 fp = count_fingerprint coll fp)
        \<and> (\<forall>i < length coll.
              (fingerprint_sha256 (coll ! i) = fingerprint_sha256 cert \<longrightarrow>
                 coll2 ! i = upsert_update now cert src n cz (coll ! i)
                 \<and> map_of (source_ids (coll2 ! i)) src = Some n
                 \<and> ct_log_type (coll2 ! i) = ct_log_type cert
                 \<and> marinus_updated (coll2 ! i) = now
                 \<and> zones (coll2 ! i) = cz
                 \<and> set (sources (coll2 ! i)) = insert src (set (sources (coll ! i))))
              \<and> (fingerprint_sha256 (coll ! i) \<noteq> fingerprint_sha256 cert \<longrightarrow>
                 coll2 ! i = coll ! i))))"
proof (intro conjI impI)
  assume a: "count_fingerprint coll (fingerprint_sha256 cert) = 0"
  then show "insert_certificate now cert src coll cz = Inr (coll @ [cert])"
    by (rule insert_certificate_absent)
  from a show "count_fingerprint (coll @ [cert]) (fingerprint_sha256 cert) = 1"
    by (simp add: count_fingerprint_def)
next
  assume a: "count_fingerprint coll (fingerprint_sha256 cert) \<noteq> 0
       \<and> map_of (source_ids cert) src = Some n"
  let ?c2 = "update_many (\<lambda>doc. fingerprint_sha256 doc = fingerprint_sha256 cert)
            (upsert_update now cert src n cz) coll"
  have r: "insert_certificate now cert src coll cz = Inr ?c2"
    using a by (simp add: insert_certificate_present)
  have l: "length ?c2 = length coll"
    by (rule update_many_length)
  have c: "\<forall>fp. count_fingerprint ?c2 fp = count_fingerprint coll fp"
    by (simp add: count_update_many upsert_update_fingerprint)
  have u: "\<forall>i < length coll.
              (fingerprint_sha256 (coll ! i) = fingerprint_sha256 cert \<longrightarrow>
                 ?c2 ! i = upsert_update now cert src n cz (coll ! i)
                 \<and> map_of (source_ids (?c2 ! i)) src = Some n
                 \<and> ct_log_type (?c2 ! i) = ct_log_type cert
                 \<and> marinus_updated (?c2 ! i) = now
                 \<and> zones (?c2 ! i) = cz
                 \<and> set (sources (?c2 ! i)) = insert src (set (sources (coll ! i))))
              \<and> (fingerprint_sha256 (coll ! i) \<noteq> fingerprint_sha256 cert \<longrightarrow>
                 ?c2 ! i = coll ! i)"
    by (simp add: update_many_nth upsert_update_def set_addToSet update_conv')
  show "\<exists>coll2. insert_certificate now cert src coll cz = Inr coll2
        \<and> length coll2 = length coll
        \<and> (\<forall>fp. count_fingerprint coll2 fp = count_fingerprint coll fp)
        \<and> (\<forall>i < length coll.
              (fingerprint_sha256 (coll ! i) = fingerprint_sha256 cert \<longrightarrow>
                 coll2 ! i = upsert_update now cert src n cz (coll ! i)
                 \<and> map_of (source_ids (coll2 ! i)) src = Some n
                 \<and> ct_log_type (coll2 ! i) = ct_log_type cert
                 \<and> marinus_updated (coll2 ! i) = now
                 \<and> zones (coll2 ! i) = cz
                 \<and> set (sources (coll2 ! i)) = insert src (set (sources (coll ! i))))
              \<and> (fingerprint_sha256 (coll ! i) \<noteq> fingerprint_sha256 cert \<longrightarrow>
                 coll2 ! i = coll ! i))"
    using r l c u by blast
qed

theorem upsert_witness:
  "count_fingerprint example_store ''f3'' = 1
   \<and> insert_certificate 500 (example_doc ''f3'' [(''aviator'', 30)]) ''aviator'' example_store
        [''example.com'']
     = Inr [example_doc ''f1'' [(''aviator'', 5)],
            example_doc ''f2'' [(''pilot'', 40), (''aviator'', 12)],
            (example_doc ''f3'' [(''pilot'', 77), (''aviator'', 30)])
               \<lparr> zones := [''example.com''], marinus_updated := 500 \<rparr>,
            example_doc ''f4'' [(''aviator'', 9)]]
   \<and> count_fingerprint example_store ''f9'' = 0
   \<and> insert_certificate 500 (example_doc ''f9'' [(''aviator'', 31)]) ''aviator'' example_store []
     = Inr (example_store @ [example_doc ''f9'' [(''aviator'', 31)]])"
  using upsert_by_fingerprint [of example_store "example_doc ''f3'' [(''aviator'', 30)]" 500
      "''aviator''" "[''example.com'']" 30]
    upsert_by_fingerprint [of example_store "example_doc ''f9'' [(''aviator'', 31)]" 500
      "''aviator''" "[]" 31]
  by (simp add: count_fingerprint_def example_store_def example_doc_def insert_certificate_def
      update_many_def addToSet_def insert_one_def)

section \<open>Properties of the loop and the sweep\<close>

lemma main_loop_rule:
  assumes run: "main_loop env net ts st0 = Some y0"
    and finished: "\<And>st. \<not> current_index st < ts \<Longrightarrow> P st (Loop_done, st)"
    and fatal: "\<And>st status w.
        current_index st < ts \<Longrightarrow>
        fetch_certificate_batch net (current_index st)
          (if current_index st + 256 > ts then ts else current_index st + 256) (net_world st)
          = (Exit status, w) \<Longrightarrow>
        P st (Fatal_exit status, st\<lparr> net_world := w \<rparr>)"
    and uncaught: "\<And>st certs w err i coll.
        current_index st < ts \<Longrightarrow>
        fetch_certificate_batch net (current_index st)
          (if current_index st + 256 > ts then ts else current_index st + 256) (net_world st)
          = (Return certs, w) \<Longrightarrow>
        process_entries env certs (current_index st, store st) = (Some err, (i, coll)) \<Longrightarrow>
        P st (Uncaught err, \<lparr> current_index = i, store = coll, net_world = w \<rparr>)"
    and step: "\<And>st certs w i coll y.
        current_index st < ts \<Longrightarrow>
        fetch_certificate_batch net (current_index st)
          (if current_index st + 256 > ts then ts else current_index st + 256) (net_world st)
          = (Return certs, w) \<Longrightarrow>
        process_entries env certs (current_index st, store st) = (None, (i, coll)) \<Longrightarrow>
        P \<lparr> current_index = i, store = coll, net_world = w \<rparr> y \<Longrightarrow>
        P st y"
  shows "P st0 y0"
proof -
  have "env = env \<and> net = net \<and> ts = ts \<longrightarrow> P st0 y0"
  proof (rule main_loop.raw_induct
      [where P = "\<lambda>env1 net1 ts1 st y. env1 = env \<and> net1 = net \<and> ts1 = ts \<longrightarrow> P st y",
       OF _ run])
    fix f :: "crawl_env \<Rightarrow> (url list \<Rightarrow> url \<Rightarrow> entry list http_outcome) \<Rightarrow> int
                \<Rightarrow> crawl_state \<Rightarrow> (loop_end \<times> crawl_state) option"
      and env1 net1 ts1 st y
    assume IH: "\<And>env1 net1 ts1 st y.
        f env1 net1 ts1 st = Some y \<Longrightarrow> env1 = env \<and> net1 = net \<and> ts1 = ts \<longrightarrow> P st y"
    assume body: "(if current_index st < ts1 then
          (let ending_index = (if current_index st + 256 > ts1 then ts1
                               else current_index st + 256)
           in case fetch_certificate_batch net1 (current_index st) ending_index (net_world st) of
                (Exit status, w) \<Rightarrow> Some (Fatal_exit status, st\<lparr> net_world := w \<rparr>)
              | (Return certs, w) \<Rightarrow>
                  (case process_entries env1 certs (current_index st, store st) of
                     (Some err, (i, coll)) \<Rightarrow>
                       Some (Uncaught err, \<lparr> current_index = i, store = coll, net_world = w \<rparr>)
                   | (None, (i, coll)) \<Rightarrow>
                       f env1 net1 ts1
                         \<lparr> current_index = i, store = coll, net_world = w \<rparr>))
        else Some (Loop_done, st)) = Some y"
    show "env1 = env \<and> net1 = net \<and> ts1 = ts \<longrightarrow> P st y"
    proof
      assume "env1 = env \<and> net1 = net \<and> ts1 = ts"
      then have e1: "env1 = env" and e2: "net1 = net" and e3: "ts1 = ts"
        by simp_all
      note eqs = body [unfolded e1 e2 e3]
      show "P st y"
      proof (cases "current_index st < ts")
        case False
        with eqs have "y = (Loop_done, st)" by simp
        with False show ?thesis by (simp add: finished)
      next
        case True
        let ?e = "if current_index st + 256 > ts then ts else current_index st + 256"
        obtain c w where
          fe: "fetch_certificate_batch net (current_index st) ?e (net_world st) = (c, w)"
          by (cases "fetch_certificate_batch net (current_index st) ?e (net_world st)")
        show ?thesis
        proof (cases c)
          case (Exit status)
          with eqs True fe have "y = (Fatal_exit status, st\<lparr> net_world := w \<rparr>)"
            by (simp add: Let_def)
          with fatal [OF True] fe Exit show ?thesis by simp
        next
          case (Return certs)
          obtain r i coll where
            pe: "process_entries env certs (current_index st, store st) = (r, (i, coll))"
            by (cases "process_entries env certs (current_index st, store st)") auto
          show ?thesis
          proof (cases r)
            case None
            with eqs True fe Return pe
            have "f env net ts \<lparr>current_index = i, store = coll, net_world = w\<rparr> = Some y"
              by (simp add: Let_def)
            then have "P \<lparr>current_index = i, store = coll, net_world = w\<rparr> y"
              using IH by blast
            with step [OF True] fe Return pe None show ?thesis by simp
          next
            case (Some err)
            with eqs True fe Return pe
            have "y = (Uncaught err, \<lparr> current_index = i, store = coll, net_world = w \<rparr>)"
              by (simp add: Let_def)
            with uncaught [OF True] fe Return pe Some show ?thesis by simp
          qed
        qed
      qed
    qed
  qed
  then show ?thesis by simp
qed

lemma keeps_expired_iff:
  "keeps_expired coll coll2 \<longleftrightarrow>
     length coll \<le> length coll2 \<and> (\<forall>i < length coll. isExpired (coll ! i) \<longrightarrow> isExpired (coll2 ! i))"
  by (auto simp add: keeps_expired_def list_all_iff)

lemma keeps_expired_refl: "keeps_expired coll coll"
  by (simp add: keeps_expired_iff)

lemma keeps_expired_trans:
  "keeps_expired a b \<Longrightarrow> keeps_expired b c \<Longrightarrow> keeps_expired a c"
  by (auto simp add: keeps_expired_iff)

lemma keeps_expired_append: "keeps_expired coll (coll @ xs)"
  by (simp add: keeps_expired_iff nth_append)

lemma keeps_expired_update_many:
  assumes "\<And>doc. isExpired doc \<Longrightarrow> isExpired (f doc)"
  shows "keeps_expired coll (update_many p f coll)"
  using assms by (simp add: keeps_expired_iff update_many_length update_many_nth)

lemma keeps_expired_insert_certificate:
  "insert_certificate now cert src coll cz = Inr coll2 \<Longrightarrow> keeps_expired coll coll2"
  by (auto simp add: insert_certificate_def insert_one_def keeps_expired_append
      intro!: keeps_expired_update_many split: if_splits option.splits)

lemma keeps_expired_main_set_expired: "keeps_expired coll (main_set_expired t coll)"
  by (simp add: main_set_expired_def keeps_expired_update_many)

lemma keeps_expired_main_persist:
  "main_persist env d t (i, coll) = Inr (j, coll2) \<Longrightarrow> keeps_expired coll coll2"
  by (auto simp add: main_persist_def Let_def keeps_expired_refl
      dest: keeps_expired_insert_certificate split: option.splits if_splits sum.splits)

lemma keeps_expired_process_entry:
  "process_entry env e (i, coll) = Inr (j, coll2) \<Longrightarrow> keeps_expired coll coll2"
  by (auto simp add: process_entry_def keeps_expired_refl
      dest: keeps_expired_main_persist split: sum.splits extraction.splits)

lemma keeps_expired_process_entries:
  "process_entries env es (i, coll) = (r, (j, coll2)) \<Longrightarrow> keeps_expired coll coll2"
proof (induction es arbitrary: i coll)
  case Nil
  then show ?case by (simp add: keeps_expired_refl)
next
  case (Cons e es)
  show ?case
  proof (cases "process_entry env e (i, coll)")
    case (Inl err)
    with Cons.prems show ?thesis by (simp add: keeps_expired_refl)
  next
    case (Inr st2)
    obtain k c where st2: "st2 = (k, c)" by (cases st2)
    from Inr st2 have "keeps_expired coll c"
      by (auto dest: keeps_expired_process_entry)
    moreover from Cons.prems Inr st2 have "process_entries env es (k, c) = (r, (j, coll2))"
      by simp
    then have "keeps_expired c coll2" by (rule Cons.IH)
    ultimately show ?thesis by (rule keeps_expired_trans)
  qed
qed

lemma keeps_expired_main_loop:
  assumes run: "main_loop env net ts st = Some y"
  shows "keeps_expired (store st) (store (snd y))"
  using run
proof (rule main_loop_rule [where P = "\<lambda>st y. keeps_expired (store st) (store (snd y))"])
  fix st certs w i coll y
  assume "process_entries env certs (current_index st, store st) = (None, (i, coll))"
  then have "keeps_expired (store st) coll"
    by (rule keeps_expired_process_entries)
  moreover assume "keeps_expired (store \<lparr> current_index = i, store = coll, net_world = w \<rparr>) (store (snd y))"
  ultimately show "keeps_expired (store st) (store (snd y))"
    by (auto intro: keeps_expired_trans)
next
  fix st certs w err i coll
  assume "process_entries env certs (current_index st, store st) = (Some err, (i, coll))"
  then have "keeps_expired (store st) coll"
    by (rule keeps_expired_process_entries)
  then show "keeps_expired (store st)
          (store (snd (Uncaught err, \<lparr> current_index = i, store = coll, net_world = w \<rparr>)))"
    by simp
qed (simp_all add: keeps_expired_refl)

text \<open>
  C8. The sweep keeps the number of documents; it sets \<^verbatim>\<open>isExpired\<close> on exactly the
  documents with \<^verbatim>\<open>not_after\<close> before the clock reading and \<^verbatim>\<open>isExpired\<close> false, and leaves
  every other document, the ones already expired among them, as it is. Sweeping twice
  with one clock reading, or with a later second reading, gives what the one (later)
  sweep gives. No operation on the store unsets \<^verbatim>\<open>isExpired\<close>: not the sweep, not
  \<open>insert_certificate\<close>, not the loop of \<^verbatim>\<open>main\<close>.
\<close>

theorem expiration_sweep:
  "length (main_set_expired t coll) = length coll
   \<and> (\<forall>i < length coll.
         main_set_expired t coll ! i
           = (if not_after (coll ! i) < t \<and> \<not> isExpired (coll ! i)
              then (coll ! i)\<lparr> isExpired := True \<rparr> else coll ! i))
   \<and> (\<forall>i < length coll. isExpired (coll ! i) \<longrightarrow> main_set_expired t coll ! i = coll ! i)
   \<and> main_set_expired t (main_set_expired t coll) = main_set_expired t coll
   \<and> (t \<le> t2 \<longrightarrow> main_set_expired t2 (main_set_expired t coll) = main_set_expired t2 coll)
   \<and> keeps_expired coll (main_set_expired t coll)
   \<and> (\<forall>coll2. insert_certificate now cert src coll cz = Inr coll2 \<longrightarrow> keeps_expired coll coll2)
   \<and> (\<forall>y. main_loop env net tree_size st = Some y \<longrightarrow> keeps_expired (store st) (store (snd y)))"
proof -
  have idem: "main_set_expired t2 (main_set_expired t coll) = main_set_expired t2 coll"
    if "t \<le> t2" for t2
    using that by (induction coll) (auto simp add: main_set_expired_def update_many_def)
  have nth: "\<forall>i < length coll.
         main_set_expired t coll ! i
           = (if not_after (coll ! i) < t \<and> \<not> isExpired (coll ! i)
              then (coll ! i)\<lparr> isExpired := True \<rparr> else coll ! i)"
    by (simp add: main_set_expired_def update_many_nth)
  have len: "length (main_set_expired t coll) = length coll"
    by (simp add: main_set_expired_def update_many_length)
  show ?thesis
    using idem [of t] idem [of t2] nth len
    by (auto simp add: keeps_expired_main_set_expired keeps_expired_insert_certificate
        keeps_expired_main_loop)
qed

theorem expiration_sweep_witness:
  "main_set_expired 500 example_expiry_store
     = [example_expiry ''past'' 100 True, example_expiry ''marked'' 50 True,
        example_expiry ''future'' 900 False, example_expiry ''odd'' 900 True]
   \<and> main_set_expired 500 (main_set_expired 500 example_expiry_store)
     = main_set_expired 500 example_expiry_store
   \<and> main_set_expired 950 (main_set_expired 500 example_expiry_store)
     = main_set_expired 950 example_expiry_store"
  using expiration_sweep [of 500 example_expiry_store 950]
  by (simp add: main_set_expired_def update_many_def example_expiry_store_def example_expiry_def
      example_doc_def)

section \<open>Properties of the batch fetch client\<close>

lemma timeout_is_request_exception: "is_Timeout e \<Longrightarrow> is_RequestException e"
  by (cases e) simp_all

lemma make_https_request_once:
  "make_https_request net u timeout_attempt w =
     (case raise_for_status (net (requested w) u) of
        Inl e \<Rightarrow>
          if is_HTTPError e then (Return None, w\<lparr> requested := requested w @ [u] \<rparr>)
          else (Exit 1, record_job_error (w\<lparr> requested := requested w @ [u] \<rparr>))
      | Inr (status_code, text) \<Rightarrow>
          if status_code \<noteq> 200 then (Return None, w\<lparr> requested := requested w @ [u] \<rparr>)
          else (Return (Some text), w\<lparr> requested := requested w @ [u] \<rparr>))"
proof (cases "raise_for_status (net (requested w) u)")
  case (Inl e)
  then show ?thesis
    by (cases e) (simp_all add: make_https_request.simps [of net u timeout_attempt w])
next
  case (Inr r)
  then show ?thesis
    by (cases r) (simp add: make_https_request.simps [of net u timeout_attempt w])
qed

lemma timeout_exits_at_once:
  assumes "is_Timeout e" and "net (requested w) u = Get_raises e"
  shows "make_https_request net u 0 w
           = (Exit 1, record_job_error (w\<lparr> requested := requested w @ [u] \<rparr>))"
  using assms by (cases e) (simp_all add: make_https_request_once raise_for_status_def)

lemma http_error_returns_absent:
  assumes "net (requested w) u = Get_response status_code body"
    and "400 \<le> status_code" and "status_code < 600"
  shows "make_https_request net u timeout_attempt w
           = (Return None, w\<lparr> requested := requested w @ [u] \<rparr>)"
  using assms by (simp add: make_https_request_once raise_for_status_def)

lemma connection_error_exits_at_once:
  assumes "net (requested w) u = Get_raises e"
    and "e = ConnectionError \<or> e = RequestException \<or> e = RetryError \<or> e = OtherException"
  shows "make_https_request net u timeout_attempt w
           = (Exit 1, record_job_error (w\<lparr> requested := requested w @ [u] \<rparr>))"
  using assms by (auto simp add: make_https_request_once raise_for_status_def)


lemma fetch_certificate_batch_delayed_retry:
  assumes first: "net (requested w) (Get_entries s e) = Get_response c1 b1"
    and c1: "400 \<le> c1" "c1 < 600"
    and second: "net (requested w @ [Get_entries s e]) (Get_entries s e) = Get_response c2 b2"
  shows "fetch_certificate_batch net s e w =
           (if c2 = 200
            then (Return b2, w\<lparr> requested := requested w @ [Get_entries s e, Get_entries s e],
                                slept := slept w @ [600] \<rparr>)
            else (Exit 1, w\<lparr> requested := requested w @ [Get_entries s e, Get_entries s e],
                             slept := slept w @ [600],
                             job_errors := job_errors w + 1 \<rparr>))"
  using assms
  by (simp add: fetch_certificate_batch_def make_https_request_once raise_for_status_def
      record_job_error_def)

lemma delayed_retry_example:
  "fetch_certificate_batch error_once_log 0 256 start_world
     = (Return [], \<lparr> requested = [Get_entries 0 256, Get_entries 0 256], slept = [600],
                      job_errors = 0 \<rparr>)"
  using fetch_certificate_batch_delayed_retry [of error_once_log start_world 0 256 404 "[]" 200 "[]"]
  by (simp add: error_once_log_def start_world_def)


section \<open>Properties of the crawl loop\<close>






















end
